theory Spec2Isabelle
  imports Main "HOL-Library.Sublist" "HOL-Library.Char_ord" "HOL-Library.List_Lexorder"
begin

section \<open>Values, text and tables\<close>

text \<open>
  The programs \<^verbatim>\<open>clean_data.py\<close> and \<^verbatim>\<open>merge_filtered.py\<close> work on pandas tables.
  A cell of a table is a missing value (NaN), a text, an integer or a float. Floating-point
  arithmetic plays no role in the code, so a float is carried as the text that Python's
  \<^verbatim>\<open>str\<close> prints for it (\<^verbatim>\<open>600000.0\<close> is \<open>Flt ''600000.0''\<close>). Texts are byte strings,
  so the whitespace of \<^verbatim>\<open>str.strip\<close> is the ASCII whitespace.
\<close>

datatype cell = Null | Str string | Num int | Flt string

datatype error =
    KeyError string
  | ValueError string
  | FileNotFoundError
  | RuntimeError

subsection \<open>Python's \<^verbatim>\<open>str\<close>, \<^verbatim>\<open>strip\<close> and \<^verbatim>\<open>re.sub\<close>\<close>

definition digit_char :: "nat \<Rightarrow> char" where
  "digit_char d = ''0123456789'' ! d"

function digits :: "nat \<Rightarrow> string" where
  "digits n = (if n < 10 then [digit_char n] else digits (n div 10) @ [digit_char (n mod 10)])"
  by pat_completeness auto
termination
proof (relation "measure id")
  show "wf (measure id)" by simp
next
  fix n :: nat
  assume "\<not> n < 10"
  then have "n div 10 < n" by (simp add: div_less_dividend)
  then show "(n div 10, n) \<in> measure id" by simp
qed

declare digits.simps [simp del]

definition str_int :: "int \<Rightarrow> string" where
  "str_int i = (if i < 0 then CHR ''-'' # digits (nat (- i)) else digits (nat i))"

text \<open>\<^verbatim>\<open>str(v)\<close> for the value in a cell. NaN prints as \<^verbatim>\<open>nan\<close>, and this text is
  what \<^verbatim>\<open>astype(str)\<close> makes of a missing value (pandas 1 and 2).\<close>

fun py_str :: "cell \<Rightarrow> string" where
  "py_str Null = ''nan''"
| "py_str (Str s) = s"
| "py_str (Num i) = str_int i"
| "py_str (Flt r) = r"

text \<open>The characters \<^verbatim>\<open>str.isspace\<close> accepts among the first 128: space, tab, line feed,
  vertical tab, form feed, carriage return and the four separators 0x1C to 0x1F.\<close>

definition is_space :: "char \<Rightarrow> bool" where
  "is_space c \<longleftrightarrow> c \<in> set [CHR '' '', CHR 0x09, CHR 0x0A, CHR 0x0B, CHR 0x0C, CHR 0x0D,
                             CHR 0x1C, CHR 0x1D, CHR 0x1E, CHR 0x1F]"

definition lstrip :: "string \<Rightarrow> string" where
  "lstrip s = dropWhile is_space s"

definition rstrip :: "string \<Rightarrow> string" where
  "rstrip s = rev (dropWhile is_space (rev s))"

definition strip :: "string \<Rightarrow> string" where
  "strip s = rstrip (lstrip s)"

text \<open>
  \<^verbatim>\<open>re.sub(r"\.0$", "", s)\<close>: the text is scanned from the left; the pattern matches a
  dot and a zero that stand at the end of the text or before a line feed that ends the text
  (Python's \<^verbatim>\<open>$\<close> without the multi-line flag). The match is deleted; what follows it is
  empty or that line feed.
\<close>

fun re_sub_dot0 :: "string \<Rightarrow> string" where
  "re_sub_dot0 [] = []"
| "re_sub_dot0 (c # cs) =
     (if c = CHR ''.'' \<and> (cs = ''0'' \<or> cs = [CHR ''0'', CHR 0x0A]) then tl cs
      else c # re_sub_dot0 cs)"

subsection \<open>Series operations\<close>

text \<open>A series is the list of the cells of one column. \<^verbatim>\<open>astype(str)\<close> turns every cell
  into a text; the \<^verbatim>\<open>.str\<close> accessor works on the texts and yields NaN elsewhere.\<close>

type_synonym series = "cell list"

definition astype_str :: "series \<Rightarrow> series" where
  "astype_str s = map (\<lambda>v. Str (py_str v)) s"

fun str_apply :: "(string \<Rightarrow> string) \<Rightarrow> cell \<Rightarrow> cell" where
  "str_apply f (Str s) = Str (f s)"
| "str_apply f v = Null"

definition str_strip :: "series \<Rightarrow> series" where
  "str_strip s = map (str_apply strip) s"

definition str_replace_dot0 :: "series \<Rightarrow> series" where
  "str_replace_dot0 s = map (str_apply re_sub_dot0) s"

text \<open>\<^verbatim>\<open>normalize_company_id\<close> of \<^verbatim>\<open>clean_data.py\<close>.\<close>

definition normalize_company_id :: "series \<Rightarrow> series" where
  "normalize_company_id series =
     (let out = str_strip (astype_str series);
          out = str_replace_dot0 out
      in out)"

text \<open>\<^verbatim>\<open>normalize_company_id\<close> of \<^verbatim>\<open>merge_filtered.py\<close>.\<close>

definition mf_normalize_company_id :: "series \<Rightarrow> series" where
  "mf_normalize_company_id series =
     (let out = str_strip (astype_str series) in str_replace_dot0 out)"

text \<open>The identifier one cell normalises to.\<close>

definition normal_id :: "cell \<Rightarrow> string" where
  "normal_id v = re_sub_dot0 (strip (py_str v))"

subsection \<open>Tables\<close>

text \<open>
  A pandas table: the column labels in their order and the rows, every row holding one cell
  per column. Rows are kept by position, so \<^verbatim>\<open>reset_index(drop=True)\<close> changes nothing
  that is modelled. A table read from a file is well formed: its labels are distinct (the
  readers rename a repeated label to \<^verbatim>\<open>Accper.1\<close> and so on) and its rows are as long as
  its header.
\<close>

record frame =
  columns :: "string list"
  rows :: "cell list list"

definition wf_frame :: "frame \<Rightarrow> bool" where
  "wf_frame df \<longleftrightarrow>
     distinct (columns df) \<and> list_all (\<lambda>r. length r = length (columns df)) (rows df)"

text \<open>The position of the first occurrence of a label (the length of the list when there
  is none).\<close>

fun index_of :: "'a \<Rightarrow> 'a list \<Rightarrow> nat" where
  "index_of x [] = 0"
| "index_of x (y # ys) = (if x = y then 0 else Suc (index_of x ys))"

definition column_values :: "frame \<Rightarrow> string \<Rightarrow> series" where
  "column_values df c = map (\<lambda>r. r ! index_of c (columns df)) (rows df)"

text \<open>\<^verbatim>\<open>df[c]\<close> raises \<^verbatim>\<open>KeyError\<close> when there is no such column.\<close>

definition getitem :: "frame \<Rightarrow> string \<Rightarrow> error + series" where
  "getitem df c =
     (if c \<in> set (columns df) then Inr (column_values df c) else Inl (KeyError c))"

text \<open>\<^verbatim>\<open>df[c] = s\<close>, for a series \<open>s\<close> computed from the same table (one cell per row):
  an existing column is overwritten in place, a new one is appended on the right.\<close>

definition setitem :: "frame \<Rightarrow> string \<Rightarrow> series \<Rightarrow> frame" where
  "setitem df c s =
     (if c \<in> set (columns df)
      then df\<lparr>rows := map (\<lambda>(r, v). r[index_of c (columns df) := v]) (zip (rows df) s)\<rparr>
      else df\<lparr>columns := columns df @ [c],
              rows := map (\<lambda>(r, v). r @ [v]) (zip (rows df) s)\<rparr>)"

text \<open>Boolean indexing: the entries whose flag is set. \<^verbatim>\<open>df.loc[mask]\<close> is the table
  of the rows selected by a boolean series computed from the same table.\<close>

definition select :: "'a list \<Rightarrow> bool list \<Rightarrow> 'a list" where
  "select xs bs = map fst (filter snd (zip xs bs))"

definition loc :: "frame \<Rightarrow> bool list \<Rightarrow> frame" where
  "loc df bs = df\<lparr>rows := select (rows df) bs\<rparr>"

text \<open>\<^verbatim>\<open>df.drop(columns=[c])\<close> for a column that is there.\<close>

definition drop_column :: "frame \<Rightarrow> string \<Rightarrow> frame" where
  "drop_column df c =
     (let i = index_of c (columns df)
      in df\<lparr>columns := take i (columns df) @ drop (Suc i) (columns df),
             rows := map (\<lambda>r. take i r @ drop (Suc i) r) (rows df)\<rparr>)"

text \<open>\<^verbatim>\<open>df.dropna(subset=cs)\<close>: the rows with a value in every column of \<open>cs\<close>.\<close>

definition dropna_subset :: "frame \<Rightarrow> string list \<Rightarrow> frame" where
  "dropna_subset df cs =
     df\<lparr>rows := filter (\<lambda>r. list_all (\<lambda>c. r ! index_of c (columns df) \<noteq> Null) cs) (rows df)\<rparr>"

text \<open>\<^verbatim>\<open>s.dropna()\<close> and \<^verbatim>\<open>s.unique()\<close> (first occurrences, in order) on a series.\<close>

definition dropna :: "series \<Rightarrow> series" where
  "dropna s = filter (\<lambda>v. v \<noteq> Null) s"

definition unique :: "'a list \<Rightarrow> 'a list" where
  "unique s = rev (remdups (rev s))"

text \<open>The texts among the cells of a series: company identifiers are texts
  (\<^verbatim>\<open>Set[str]\<close>).\<close>

fun texts :: "series \<Rightarrow> string list" where
  "texts [] = []"
| "texts (Str s # vs) = s # texts vs"
| "texts (v # vs) = texts vs"

text \<open>\<^verbatim>\<open>s.isin(values)\<close> for a set of texts and for a set of integers.\<close>

definition isin_str :: "series \<Rightarrow> string set \<Rightarrow> bool list" where
  "isin_str s keep = map (\<lambda>v. case v of Str x \<Rightarrow> x \<in> keep | _ \<Rightarrow> False) s"

definition isin_int :: "series \<Rightarrow> int set \<Rightarrow> bool list" where
  "isin_int s keep = map (\<lambda>v. case v of Num y \<Rightarrow> y \<in> keep | _ \<Rightarrow> False) s"

subsection \<open>Dates\<close>

text \<open>
  \<^verbatim>\<open>pd.to_datetime\<close> belongs to pandas, not to this repository, so the reading of dates
  is a parameter of the model. With an explicit format every cell is read on its own
  (\<open>strict\<close>, for \<^verbatim>\<open>format="%Y-%m-%d"\<close>); without a format pandas settles on a format
  for the whole column first, so the reading of a cell may depend on the column it stands in
  (\<open>flexible\<close>). \<^verbatim>\<open>errors="coerce"\<close> makes an unreadable cell \<^verbatim>\<open>NaT\<close>, here \<open>None\<close>.
\<close>

record date =
  year :: int
  month :: nat
  day :: nat

record parser =
  strict :: "cell \<Rightarrow> date option"
  flexible :: "series \<Rightarrow> cell \<Rightarrow> date option"

definition to_datetime :: "parser \<Rightarrow> series \<Rightarrow> date option list" where
  "to_datetime P raw = map (flexible P raw) raw"

definition to_datetime_iso :: "parser \<Rightarrow> series \<Rightarrow> date option list" where
  "to_datetime_iso P raw = map (strict P) raw"

text \<open>\<^verbatim>\<open>dates.dt.year\<close>: the year, NaN for \<^verbatim>\<open>NaT\<close>.\<close>

definition dt_year :: "date option list \<Rightarrow> series" where
  "dt_year dates = map (\<lambda>d. case d of None \<Rightarrow> Null | Some x \<Rightarrow> Num (year x)) dates"

text \<open>\<^verbatim>\<open>(dates.dt.month == 12) & (dates.dt.day == 31)\<close>: false for \<^verbatim>\<open>NaT\<close>.\<close>

definition is_year_end :: "date option \<Rightarrow> bool" where
  "is_year_end d = (case d of None \<Rightarrow> False | Some x \<Rightarrow> month x = 12 \<and> day x = 31)"

section \<open>The cleaning stage (\<^verbatim>\<open>clean_data.py\<close>)\<close>

text \<open>A \<^verbatim>\<open>date_col\<close> that is \<^verbatim>\<open>None\<close> or the empty text is false in a Python condition.\<close>

fun truthy :: "string option \<Rightarrow> bool" where
  "truthy None = False"
| "truthy (Some c) = (c \<noteq> [])"

definition filter_year_end :: "parser \<Rightarrow> frame \<Rightarrow> string option \<Rightarrow> error + frame" where
  "filter_year_end P df date_col =
     (if \<not> truthy date_col then Inr df
      else case getitem df (the date_col) of
             Inl e \<Rightarrow> Inl e
           | Inr raw \<Rightarrow>
               let dates = to_datetime P raw;
                   mask = map is_year_end dates
               in Inr (loc df mask))"

definition normalize_year :: "parser \<Rightarrow> frame \<Rightarrow> string \<Rightarrow> error + series" where
  "normalize_year P df date_col =
     (case getitem df date_col of
        Inl e \<Rightarrow> Inl e
      | Inr raw \<Rightarrow>
          let dates = to_datetime_iso P raw;
              dates = (if list_all (\<lambda>d. d = None) dates then to_datetime P raw else dates)
          in Inr (dt_year dates))"

text \<open>\<^verbatim>\<open>temp.groupby(company_col)["__year"].apply(lambda s: set(s) & target_years)\<close>:
  one entry per company, with the target years seen in its rows.\<close>

definition year_sets :: "series \<Rightarrow> series \<Rightarrow> int set \<Rightarrow> (string \<times> int set) list" where
  "year_sets companies years target_years =
     map (\<lambda>c. (c, set (concat (map (\<lambda>(c', y). case y of Num n \<Rightarrow> if c' = Str c then [n] else []
                                                  | _ \<Rightarrow> [])
                                (zip companies years))) \<inter> target_years))
       (unique (texts companies))"

definition companies_with_full_years ::
    "parser \<Rightarrow> frame \<Rightarrow> string \<Rightarrow> string option \<Rightarrow> int set \<Rightarrow> int \<Rightarrow> error + string set" where
  "companies_with_full_years P df company_col year_col target_years min_years =
     (case getitem df company_col of
        Inl e \<Rightarrow> Inl e
      | Inr ids \<Rightarrow>
          let temp = setitem df company_col (normalize_company_id ids)
          in case year_col of
               None \<Rightarrow> Inr (set (texts (unique (dropna (column_values temp company_col)))))
             | Some yc \<Rightarrow>
                 (case normalize_year P temp yc of
                    Inl e \<Rightarrow> Inl e
                  | Inr ys \<Rightarrow>
                      let temp = setitem temp ''__year'' ys;
                          temp = dropna_subset temp [company_col, ''__year''];
                          sets = year_sets (column_values temp company_col)
                                   (column_values temp ''__year'') target_years
                      in Inr (set (map fst
                            (filter (\<lambda>(company, years). min_years \<le> int (card years)) sets)))))"

definition filter_for_companies_and_years ::
    "parser \<Rightarrow> frame \<Rightarrow> string \<Rightarrow> string option \<Rightarrow> string set \<Rightarrow> int set \<Rightarrow> error + frame" where
  "filter_for_companies_and_years P df company_col year_col keep_companies target_years =
     (case getitem df company_col of
        Inl e \<Rightarrow> Inl e
      | Inr ids \<Rightarrow>
          let out = setitem df company_col (normalize_company_id ids);
              mask = isin_str (column_values out company_col) keep_companies
          in if truthy year_col
             then (case normalize_year P out (the year_col) of
                     Inl e \<Rightarrow> Inl e
                   | Inr ys \<Rightarrow>
                       let out = setitem out ''__year'' ys;
                           mask = map (\<lambda>(a, b). a \<and> b)
                                    (zip mask (isin_int (column_values out ''__year'') target_years));
                           out = drop_column out ''__year''
                       in Inr (loc out mask))
             else Inr (loc out mask))"

subsection \<open>The two functions on a store of tables\<close>

text \<open>
  pandas tables are mutable objects, and \<^verbatim>\<open>df[c] = s\<close> changes the table it is applied to.
  To follow what happens to the caller's table, the tables live in a store and are named by
  their position in it: \<^verbatim>\<open>df.copy()\<close> puts a copy at a fresh address, an assignment to a
  column overwrites the table at its address, and the operations that return a new table
  (\<^verbatim>\<open>dropna\<close>, \<^verbatim>\<open>drop\<close>, \<^verbatim>\<open>loc\<close>, \<^verbatim>\<open>reset_index\<close>) put their result at a fresh
  address. The two functions are written once more in this style, statement by statement;
  they return their result together with the store they leave behind.
\<close>

type_synonym store = "frame list"

definition copy :: "store \<Rightarrow> nat \<Rightarrow> nat \<times> store" where
  "copy h a = (length h, h @ [h ! a])"

definition alloc :: "store \<Rightarrow> frame \<Rightarrow> nat \<times> store" where
  "alloc h df = (length h, h @ [df])"

definition assign_column :: "store \<Rightarrow> nat \<Rightarrow> string \<Rightarrow> series \<Rightarrow> store" where
  "assign_column h a c s = h[a := setitem (h ! a) c s]"

definition companies_with_full_years_st ::
    "parser \<Rightarrow> store \<Rightarrow> nat \<Rightarrow> string \<Rightarrow> string option \<Rightarrow> int set \<Rightarrow> int
     \<Rightarrow> (error + string set) \<times> store" where
  "companies_with_full_years_st P h df company_col year_col target_years min_years =
     (let (temp, h) = copy h df
      in case getitem (h ! temp) company_col of
           Inl e \<Rightarrow> (Inl e, h)
         | Inr ids \<Rightarrow>
             let h = assign_column h temp company_col (normalize_company_id ids)
             in case year_col of
                  None \<Rightarrow>
                    (Inr (set (texts (unique (dropna (column_values (h ! temp) company_col))))), h)
                | Some yc \<Rightarrow>
                    (case normalize_year P (h ! temp) yc of
                       Inl e \<Rightarrow> (Inl e, h)
                     | Inr ys \<Rightarrow>
                         let h = assign_column h temp ''__year'' ys;
                             (temp, h) = alloc h (dropna_subset (h ! temp) [company_col, ''__year'']);
                             sets = year_sets (column_values (h ! temp) company_col)
                                      (column_values (h ! temp) ''__year'') target_years
                         in (Inr (set (map fst
                               (filter (\<lambda>(company, years). min_years \<le> int (card years)) sets))),
                             h)))"

definition filter_for_companies_and_years_st ::
    "parser \<Rightarrow> store \<Rightarrow> nat \<Rightarrow> string \<Rightarrow> string option \<Rightarrow> string set \<Rightarrow> int set
     \<Rightarrow> (error + nat) \<times> store" where
  "filter_for_companies_and_years_st P h df company_col year_col keep_companies target_years =
     (let (out, h) = copy h df
      in case getitem (h ! out) company_col of
           Inl e \<Rightarrow> (Inl e, h)
         | Inr ids \<Rightarrow>
             let h = assign_column h out company_col (normalize_company_id ids);
                 mask = isin_str (column_values (h ! out) company_col) keep_companies
             in if truthy year_col
                then (case normalize_year P (h ! out) (the year_col) of
                        Inl e \<Rightarrow> (Inl e, h)
                      | Inr ys \<Rightarrow>
                          let h = assign_column h out ''__year'' ys;
                              mask = map (\<lambda>(a, b). a \<and> b)
                                       (zip mask (isin_int (column_values (h ! out) ''__year'')
                                          target_years));
                              (out, h) = alloc h (drop_column (h ! out) ''__year'');
                              (selected, h) = alloc h (loc (h ! out) mask);
                              (res, h) = alloc h (h ! selected)
                          in (Inr res, h))
                else let (selected, h) = alloc h (loc (h ! out) mask);
                         (res, h) = alloc h (h ! selected)
                     in (Inr res, h))"

subsection \<open>Configuration and input files\<close>

record DatasetConfig =
  cfg_key :: string
  stem :: string
  expected_exts :: "string list"
  company_cols :: "string list"
  date_cols :: "string list"
  filter_col :: "string option"
  filter_keep :: "cell list option"

definition DATASETS :: "DatasetConfig list" where
  "DATASETS =
     [\<lparr>cfg_key = ''cg_co'', stem = ''CG_Co'', expected_exts = [''.xlsx'', ''.xls''],
       company_cols = [''Stkcd''], date_cols = [], filter_col = None, filter_keep = None\<rparr>,
      \<lparr>cfg_key = ''fs_combas'', stem = ''FS_Combas'', expected_exts = [''.xlsx'', ''.xls''],
       company_cols = [''Stkcd''], date_cols = [''Accper''], filter_col = Some ''Typrep'',
       filter_keep = Some [Str ''B'']\<rparr>,
      \<lparr>cfg_key = ''fs_comins'', stem = ''FS_Comins'', expected_exts = [''.xlsx'', ''.xls''],
       company_cols = [''Stkcd''], date_cols = [''Accper''], filter_col = Some ''Typrep'',
       filter_keep = Some [Str ''B'']\<rparr>,
      \<lparr>cfg_key = ''mc_diversified_degree'', stem = ''MC_DiverOperationsDegree'',
       expected_exts = [''.csv'', ''.xlsx'', ''.xls''], company_cols = [''Symbol''],
       date_cols = [''EndDate''], filter_col = Some ''StateTypeCode'',
       filter_keep = Some [Str ''2'', Num 2]\<rparr>,
      \<lparr>cfg_key = ''mc_diversified_product'', stem = ''MC_DiverOperationsPro'',
       expected_exts = [''.csv'', ''.xlsx'', ''.xls''], company_cols = [''Symbol''],
       date_cols = [''EndDate''], filter_col = Some ''StateTypeCode'',
       filter_keep = Some [Str ''2'', Num 2]\<rparr>]"

text \<open>
  The outside world of \<^verbatim>\<open>process\<close>: the names of the files in the data directory and
  the readers of pandas, which are parameters (\<^verbatim>\<open>read_csv\<close> may fail with
  \<^verbatim>\<open>ParserError\<close>, after which the lenient reader is tried).
\<close>

datatype io_error = Raised error | ParserError

record world =
  listing :: "string list"
  read_csv :: "string \<Rightarrow> io_error + frame"
  read_csv_lenient :: "string \<Rightarrow> error + frame"
  read_excel :: "string \<Rightarrow> error + frame"

text \<open>\<^verbatim>\<open>glob(stem + "*" + ext)\<close> on file names, and the suffix and stem of a path as
  \<^verbatim>\<open>pathlib\<close> computes them.\<close>

definition glob_match :: "string \<Rightarrow> string \<Rightarrow> string \<Rightarrow> bool" where
  "glob_match st ext name \<longleftrightarrow>
     prefix st name \<and> suffix ext name \<and> length st + length ext \<le> length name"

definition path_suffix :: "string \<Rightarrow> string" where
  "path_suffix name =
     (let ext = rev (takeWhile (\<lambda>c. c \<noteq> CHR ''.'') (rev name))
      in if CHR ''.'' \<in> set name \<and> ext \<noteq> [] \<and> length ext + 1 < length name
         then CHR ''.'' # ext else [])"

definition path_stem :: "string \<Rightarrow> string" where
  "path_stem name = take (length name - length (path_suffix name)) name"

definition lower :: "string \<Rightarrow> string" where
  "lower s = map (\<lambda>c. if c \<in> set ''ABCDEFGHIJKLMNOPQRSTUVWXYZ''
                        then ''abcdefghijklmnopqrstuvwxyz'' ! index_of c ''ABCDEFGHIJKLMNOPQRSTUVWXYZ''
                        else c) s"

definition find_input_file :: "DatasetConfig \<Rightarrow> string list \<Rightarrow> error + string" where
  "find_input_file cfg names =
     (case find (\<lambda>ext. stem cfg @ ext \<in> set names) (expected_exts cfg) of
        Some ext \<Rightarrow> Inr (stem cfg @ ext)
      | None \<Rightarrow>
          (case find (\<lambda>ext. filter (glob_match (stem cfg) ext) names \<noteq> []) (expected_exts cfg) of
             Some ext \<Rightarrow> Inr (hd (sort (filter (glob_match (stem cfg) ext) names)))
           | None \<Rightarrow> Inl FileNotFoundError))"

definition pick_first_existing :: "frame \<Rightarrow> string list \<Rightarrow> error + string" where
  "pick_first_existing df cols =
     (case find (\<lambda>col. col \<in> set (columns df)) cols of
        Some col \<Rightarrow> Inr col
      | None \<Rightarrow> Inl (KeyError (concat cols)))"

definition read_dataset :: "world \<Rightarrow> string \<Rightarrow> error + frame" where
  "read_dataset w path =
     (if lower (path_suffix path) = ''.csv''
      then (case read_csv w path of
              Inr df \<Rightarrow> Inr df
            | Inl ParserError \<Rightarrow> read_csv_lenient w path
            | Inl (Raised e) \<Rightarrow> Inl e)
      else read_excel w path)"

definition startswith :: "string \<Rightarrow> string \<Rightarrow> bool" where
  "startswith s p = prefix p s"

definition apply_row_filter :: "frame \<Rightarrow> DatasetConfig \<Rightarrow> bool \<Rightarrow> error + frame" where
  "apply_row_filter df cfg include_consolidated =
     (if \<not> truthy (filter_col cfg) then Inr df
      else if the (filter_col cfg) \<notin> set (columns df) then Inl (KeyError (the (filter_col cfg)))
      else
        let keep_values = (case filter_keep cfg of
                             None \<Rightarrow> {}
                           | Some vs \<Rightarrow> set (map py_str vs));
            keep_values = (if include_consolidated \<and> startswith (cfg_key cfg) ''mc_''
                           then keep_values \<union> {''1''} else keep_values);
            keep_values = (if include_consolidated \<and> cfg_key cfg \<in> {''fs_combas'', ''fs_comins''}
                           then keep_values \<union> {''A''} else keep_values)
        in Inr (loc df (isin_str (astype_str (column_values df (the (filter_col cfg)))) keep_values)))"

subsection \<open>\<^verbatim>\<open>process\<close>\<close>

text \<open>What \<^verbatim>\<open>process\<close> keeps for every dataset (the entries of \<^verbatim>\<open>loaded\<close> and
  \<^verbatim>\<open>metadata\<close>, which have the same keys in the same order).\<close>

record loaded =
  l_cfg :: DatasetConfig
  l_path :: string
  l_df :: frame
  l_company_col :: string
  l_year_col :: "string option"
  l_coverage :: "string set"
  l_row_count :: nat
  l_unique_companies :: nat
  l_years_present :: "(int option \<times> int option \<times> int list) option"

fun ints :: "series \<Rightarrow> int list" where
  "ints [] = []"
| "ints (Num n # vs) = n # ints vs"
| "ints (v # vs) = ints vs"

definition min_opt :: "int list \<Rightarrow> int option" where
  "min_opt ys = (if ys = [] then None else Some (fold min (tl ys) (hd ys)))"

definition max_opt :: "int list \<Rightarrow> int option" where
  "max_opt ys = (if ys = [] then None else Some (fold max (tl ys) (hd ys)))"

definition years_present ::
    "parser \<Rightarrow> frame \<Rightarrow> string \<Rightarrow> error + (int option \<times> int option \<times> int list)" where
  "years_present P df year_col =
     (case normalize_year P df year_col of
        Inl e \<Rightarrow> Inl e
      | Inr ys \<Rightarrow>
          let years_series = ints (dropna ys)
          in Inr (min_opt years_series, max_opt years_series,
                  take 10 (sort (unique years_series))))"

definition load_dataset ::
    "parser \<Rightarrow> world \<Rightarrow> int set \<Rightarrow> int \<Rightarrow> bool \<Rightarrow> DatasetConfig \<Rightarrow> error + loaded" where
  "load_dataset P w target_years min_years include_consolidated cfg =
     (case find_input_file cfg (listing w) of Inl e \<Rightarrow> Inl e | Inr path \<Rightarrow>
      case read_dataset w path of Inl e \<Rightarrow> Inl e | Inr df \<Rightarrow>
      case apply_row_filter df cfg include_consolidated of Inl e \<Rightarrow> Inl e | Inr df \<Rightarrow>
      case filter_year_end P df (if date_cols cfg \<noteq> [] then Some (hd (date_cols cfg)) else None) of
        Inl e \<Rightarrow> Inl e | Inr df \<Rightarrow>
      case pick_first_existing df (company_cols cfg) of Inl e \<Rightarrow> Inl e | Inr company_col \<Rightarrow>
      case (if date_cols cfg \<noteq> []
            then (case pick_first_existing df (date_cols cfg) of
                    Inl e \<Rightarrow> Inl e | Inr c \<Rightarrow> Inr (Some c))
            else Inr None) of Inl e \<Rightarrow> Inl e | Inr year_col \<Rightarrow>
      case companies_with_full_years P df company_col year_col target_years min_years of
        Inl e \<Rightarrow> Inl e | Inr coverage \<Rightarrow>
      case (if truthy year_col
            then (case years_present P df (the year_col) of
                    Inl e \<Rightarrow> Inl e | Inr yp \<Rightarrow> Inr (Some yp))
            else Inr None) of Inl e \<Rightarrow> Inl e | Inr yp \<Rightarrow>
      Inr \<lparr>l_cfg = cfg, l_path = path, l_df = df, l_company_col = company_col,
           l_year_col = year_col, l_coverage = coverage, l_row_count = length (rows df),
           l_unique_companies = length (unique (dropna (column_values df company_col))),
           l_years_present = yp\<rparr>)"

fun load_all ::
    "parser \<Rightarrow> world \<Rightarrow> int set \<Rightarrow> int \<Rightarrow> bool \<Rightarrow> DatasetConfig list \<Rightarrow> error + loaded list" where
  "load_all P w target_years min_years include_consolidated [] = Inr []"
| "load_all P w target_years min_years include_consolidated (cfg # cfgs) =
     (case load_dataset P w target_years min_years include_consolidated cfg of
        Inl e \<Rightarrow> Inl e
      | Inr l \<Rightarrow>
          (case load_all P w target_years min_years include_consolidated cfgs of
             Inl e \<Rightarrow> Inl e
           | Inr ls \<Rightarrow> Inr (l # ls)))"

text \<open>What \<^verbatim>\<open>process\<close> prints, line by line, as data: the summary line (threshold, target
  years, number of common companies), one line per dataset (key, rows, unique companies,
  companies meeting the threshold, smallest and largest year when there is a year column)
  and one line per saved file (key, output path, rows).\<close>

datatype event =
    Summary int "int set" nat
  | DatasetLine string nat nat nat "(int option \<times> int option) option"
  | SavedLine string string nat

definition dataset_line :: "loaded \<Rightarrow> event" where
  "dataset_line l =
     DatasetLine (cfg_key (l_cfg l)) (l_row_count l) (l_unique_companies l) (card (l_coverage l))
       (case l_years_present l of
          None \<Rightarrow> None
        | Some (yr_min, yr_max, yr_samples) \<Rightarrow> Some (yr_min, yr_max))"

text \<open>\<^verbatim>\<open>set.intersection(*sets)\<close> for at least one set.\<close>

definition intersection :: "'a set list \<Rightarrow> 'a set" where
  "intersection sets = fold (\<lambda>s acc. acc \<inter> s) (tl sets) (hd sets)"

record outcome =
  result :: "error + unit"
  printed :: "event list"
  saved :: "(string \<times> frame) list"

text \<open>The last loop of \<^verbatim>\<open>process\<close>: every dataset is filtered, saved and reported, in
  order; an error stops the loop and leaves what was written before.\<close>

fun save_all ::
    "parser \<Rightarrow> string set \<Rightarrow> int set \<Rightarrow> loaded list \<Rightarrow> outcome \<Rightarrow> outcome" where
  "save_all P common_companies target_years [] out = out"
| "save_all P common_companies target_years (l # ls) out =
     (case filter_for_companies_and_years P (l_df l) (l_company_col l) (l_year_col l)
             common_companies target_years of
        Inl e \<Rightarrow> out\<lparr>result := Inl e\<rparr>
      | Inr filtered \<Rightarrow>
          let output_path = path_stem (l_path l) @ ''_filtered'' @ path_suffix (l_path l)
          in save_all P common_companies target_years ls
               (out\<lparr>saved := saved out @ [(output_path, filtered)],
                     printed := printed out
                        @ [SavedLine (cfg_key (l_cfg l)) output_path (length (rows filtered))]\<rparr>))"

definition process :: "parser \<Rightarrow> world \<Rightarrow> int set \<Rightarrow> int \<Rightarrow> bool \<Rightarrow> outcome" where
  "process P w target_years min_years include_consolidated =
     (case load_all P w target_years min_years include_consolidated DATASETS of
        Inl e \<Rightarrow> \<lparr>result = Inl e, printed = [], saved = []\<rparr>
      | Inr ls \<Rightarrow>
          let common_companies = intersection (map l_coverage ls);
              lines = Summary min_years target_years (card common_companies) # map dataset_line ls
          in if common_companies = {}
             then \<lparr>result = Inl RuntimeError, printed = lines, saved = []\<rparr>
             else save_all P common_companies target_years ls
                    \<lparr>result = Inr (), printed = lines, saved = []\<rparr>)"

section \<open>The merging stage (\<^verbatim>\<open>merge_filtered.py\<close>)\<close>

subsection \<open>Projection, duplicates, renaming\<close>

text \<open>\<^verbatim>\<open>df[list(cols)]\<close>: the table of the listed columns; \<^verbatim>\<open>KeyError\<close> when one is
  missing.\<close>

definition project :: "frame \<Rightarrow> string list \<Rightarrow> error + frame" where
  "project df cs =
     (case filter (\<lambda>c. c \<notin> set (columns df)) cs of
        [] \<Rightarrow> Inr \<lparr>columns = cs,
                   rows = map (\<lambda>r. map (\<lambda>c. r ! index_of c (columns df)) cs) (rows df)\<rparr>
      | c # _ \<Rightarrow> Inl (KeyError c))"

text \<open>\<^verbatim>\<open>df.drop_duplicates()\<close> keeps the first of equal rows; two missing values count
  as equal.\<close>

definition drop_duplicates :: "frame \<Rightarrow> frame" where
  "drop_duplicates df = df\<lparr>rows := unique (rows df)\<rparr>"

text \<open>\<^verbatim>\<open>df.rename(columns={a: b})\<close>, and the renaming that puts the source key and an
  underscore before every label outside the join key.\<close>

definition rename_column :: "string \<Rightarrow> string \<Rightarrow> frame \<Rightarrow> frame" where
  "rename_column a b df = df\<lparr>columns := map (\<lambda>c. if c = a then b else c) (columns df)\<rparr>"

definition prefix_columns :: "string \<Rightarrow> string list \<Rightarrow> frame \<Rightarrow> frame" where
  "prefix_columns key key_cols df =
     df\<lparr>columns := map (\<lambda>c. if c \<in> set key_cols then c else key @ ''_'' @ c) (columns df)\<rparr>"

subsection \<open>The spine\<close>

text \<open>
  \<^verbatim>\<open>build_spine\<close>: every table is projected to the key columns and freed of duplicates;
  the parts are stacked by \<^verbatim>\<open>pd.concat\<close> (they all have exactly the key columns, so
  stacking appends their rows; without parts \<^verbatim>\<open>pd.concat\<close> raises \<^verbatim>\<open>ValueError\<close>) and
  duplicates are dropped once more.
\<close>

fun spine_parts :: "frame list \<Rightarrow> string list \<Rightarrow> error + frame list" where
  "spine_parts [] key_cols = Inr []"
| "spine_parts (df # dfs) key_cols =
     (case project df key_cols of
        Inl e \<Rightarrow> Inl e
      | Inr sub \<Rightarrow>
          (case spine_parts dfs key_cols of
             Inl e \<Rightarrow> Inl e
           | Inr parts \<Rightarrow> Inr (drop_duplicates sub # parts)))"

definition build_spine :: "frame list \<Rightarrow> string list \<Rightarrow> error + frame" where
  "build_spine dfs key_cols =
     (case spine_parts dfs key_cols of
        Inl e \<Rightarrow> Inl e
      | Inr parts \<Rightarrow>
          if parts = [] then Inl (ValueError ''No objects to concatenate'')
          else Inr (drop_duplicates \<lparr>columns = key_cols, rows = concat (map rows parts)\<rparr>))"

subsection \<open>The left join of pandas\<close>

text \<open>
  \<^verbatim>\<open>left.merge(right, how="left", left_on=on, right_on=on)\<close>. Every row of the left table,
  in order, is paired with the rows of the right table that have the same key, in their
  order; a left row without a partner is kept once, with missing values in the columns of
  the right table. Missing keys match each other. The result has the columns of the left
  table and then the columns of the right table that are not key columns; a label outside
  the key that both tables have gets the suffix \<^verbatim>\<open>_x\<close> on the left and \<^verbatim>\<open>_y\<close> on the
  right. A key label that one table lacks raises \<^verbatim>\<open>KeyError\<close>, one that a table has
  twice raises \<^verbatim>\<open>ValueError\<close>. Cells are compared as they are stored.
\<close>

definition key_of :: "frame \<Rightarrow> string list \<Rightarrow> cell list \<Rightarrow> cell list" where
  "key_of df on r = map (\<lambda>c. r ! index_of c (columns df)) on"

definition other_positions :: "frame \<Rightarrow> string list \<Rightarrow> nat list" where
  "other_positions df on =
     filter (\<lambda>i. columns df ! i \<notin> set on) [0..<length (columns df)]"

definition merge_left :: "frame \<Rightarrow> frame \<Rightarrow> string list \<Rightarrow> error + frame" where
  "merge_left left right on =
     (case filter (\<lambda>c. c \<notin> set (columns left) \<or> c \<notin> set (columns right)) on of
        c # _ \<Rightarrow> Inl (KeyError c)
      | [] \<Rightarrow>
          (case filter (\<lambda>c. 1 < count_list (columns left) c \<or> 1 < count_list (columns right) c) on of
             c # _ \<Rightarrow> Inl (ValueError c)
           | [] \<Rightarrow>
               let others = other_positions right on;
                   overlap = filter (\<lambda>c. c \<notin> set on \<and> c \<in> set (columns left))
                               (map (\<lambda>i. columns right ! i) others);
                   left_cols = map (\<lambda>c. if c \<in> set overlap then c @ ''_x'' else c) (columns left);
                   right_cols = map (\<lambda>i. let c = columns right ! i
                                          in if c \<in> set overlap then c @ ''_y'' else c) others;
                   joined = concat (map (\<lambda>l.
                       let partners = filter (\<lambda>r. key_of right on r = key_of left on l) (rows right)
                       in if partners = [] then [l @ replicate (length others) Null]
                          else map (\<lambda>r. l @ map (\<lambda>i. r ! i) others) partners) (rows left))
               in Inr \<lparr>columns = left_cols @ right_cols, rows = joined\<rparr>))"

subsection \<open>\<^verbatim>\<open>merge_filtered\<close>\<close>

text \<open>
  The files are looked up in a fixed order. What is on disk is a parameter \<open>env\<close>: the
  table read for a source key (from the expected file or its \<^verbatim>\<open>.csv\<close> alternative), if
  there is one.
\<close>

definition files :: "string list" where
  "files = [''cg_co'', ''fs_combas'', ''fs_comins'', ''mc_degree'', ''mc_pro'']"

definition load_files :: "(string \<Rightarrow> frame option) \<Rightarrow> (string \<times> frame) list" where
  "load_files env =
     concat (map (\<lambda>key. case env key of None \<Rightarrow> [] | Some df \<Rightarrow> [(key, df)]) files)"

text \<open>The company identifier of every source becomes the column \<^verbatim>\<open>Symbol\<close>.\<close>

definition add_symbol :: "frame \<Rightarrow> frame" where
  "add_symbol df =
     (if ''Stkcd'' \<in> set (columns df)
      then setitem df ''Symbol'' (mf_normalize_company_id (column_values df ''Stkcd''))
      else if ''Symbol'' \<in> set (columns df)
      then setitem df ''Symbol'' (mf_normalize_company_id (column_values df ''Symbol''))
      else df)"

definition date_map :: "(string \<times> string option) list" where
  "date_map = [(''fs_combas'', Some ''Accper''), (''fs_comins'', Some ''Accper''),
               (''mc_degree'', Some ''EndDate''), (''mc_pro'', Some ''EndDate''),
               (''cg_co'', None)]"

definition fallbacks :: "string list" where
  "fallbacks = [''Accper'', ''Accper.1'', ''EndDate'', ''EndDate.1'']"

text \<open>The date column of a source: the declared one, or, when the table does not have it,
  the first name of the fallback list that the table has (the declared one when there is
  none).\<close>

definition actual_col :: "string \<Rightarrow> frame \<Rightarrow> string" where
  "actual_col declared_col df =
     (if declared_col \<notin> set (columns df)
      then (case find (\<lambda>fallback. fallback \<in> set (columns df)) fallbacks of
              Some fallback \<Rightarrow> fallback
            | None \<Rightarrow> declared_col)
      else declared_col)"

text \<open>The part of the spine that one dated source contributes (lines 84 to 96).\<close>

definition spine_source :: "string \<Rightarrow> frame \<Rightarrow> error + frame" where
  "spine_source declared_col df =
     (let actual = actual_col declared_col df;
          needed = [''Symbol'', actual];
          missing = filter (\<lambda>c. c \<notin> set (columns df)) needed
      in if missing \<noteq> [] then Inl (KeyError (hd missing))
         else (case project df [''Symbol'', actual] of
                 Inl e \<Rightarrow> Inl e
               | Inr sub \<Rightarrow> Inr (rename_column actual ''Date'' sub)))"

text \<open>The dated sources that were loaded, in the order of \<open>date_map\<close>, with their declared
  date column.\<close>

definition dated_keys :: "(string \<times> frame) list \<Rightarrow> (string \<times> string) list" where
  "dated_keys dfs =
     concat (map (\<lambda>(k, col). case col of
                     Some c \<Rightarrow> if c \<noteq> [] \<and> k \<in> set (map fst dfs) then [(k, c)] else []
                   | None \<Rightarrow> []) date_map)"

fun spine_sources :: "(string \<times> frame) list \<Rightarrow> (string \<times> string) list \<Rightarrow> error + frame list" where
  "spine_sources dfs [] = Inr []"
| "spine_sources dfs ((k, declared_col) # ks) =
     (case map_of dfs k of
        None \<Rightarrow> Inl (KeyError k)
      | Some df \<Rightarrow>
          (case spine_source declared_col df of
             Inl e \<Rightarrow> Inl e
           | Inr part \<Rightarrow>
               (case spine_sources dfs ks of
                  Inl e \<Rightarrow> Inl e
                | Inr parts \<Rightarrow> Inr (part # parts))))"

definition spine_for :: "(string \<times> frame) list \<Rightarrow> error + frame" where
  "spine_for dfs =
     (case spine_sources dfs (dated_keys dfs) of
        Inl e \<Rightarrow> Inl e
      | Inr sources \<Rightarrow>
          if sources \<noteq> [] then build_spine sources [''Symbol'', ''Date'']
          else Inr \<lparr>columns = [''Symbol'', ''Date''], rows = []\<rparr>)"

text \<open>One source made ready for the join (lines 104 to 119): its join key and the table
  with the date column renamed to \<^verbatim>\<open>Date\<close> and every other column prefixed.\<close>

definition join_date_col :: "string \<Rightarrow> frame \<Rightarrow> string option" where
  "join_date_col key df =
     (let declared_col = (case map_of date_map key of None \<Rightarrow> None | Some col \<Rightarrow> col)
      in if truthy declared_col \<and> the declared_col \<notin> set (columns df)
         then (case find (\<lambda>fallback. fallback \<in> set (columns df)) fallbacks of
                 Some fallback \<Rightarrow> Some fallback
               | None \<Rightarrow> declared_col)
         else declared_col)"

definition join_on :: "string \<Rightarrow> frame \<Rightarrow> string list" where
  "join_on key df = (if truthy (join_date_col key df) then [''Symbol'', ''Date''] else [''Symbol''])"

definition prepare :: "string \<Rightarrow> frame \<Rightarrow> frame" where
  "prepare key df =
     (let date_col = join_date_col key df;
          temp = (if truthy date_col then rename_column (the date_col) ''Date'' df else df)
      in prefix_columns key (join_on key df) temp)"

fun join_sources :: "frame \<Rightarrow> (string \<times> frame) list \<Rightarrow> error + frame" where
  "join_sources merged [] = Inr merged"
| "join_sources merged ((key, df) # rest) =
     (case merge_left merged (prepare key df) (join_on key df) of
        Inl e \<Rightarrow> Inl e
      | Inr merged' \<Rightarrow> join_sources merged' rest)"

text \<open>\<^verbatim>\<open>merge_filtered\<close>; the result is the table written to the output file.\<close>

definition normalize_sources :: "(string \<times> frame) list \<Rightarrow> (string \<times> frame) list" where
  "normalize_sources dfs = map (\<lambda>(key, df). (key, add_symbol df)) dfs"

definition merge_filtered :: "(string \<Rightarrow> frame option) \<Rightarrow> error + frame" where
  "merge_filtered env =
     (let dfs = load_files env
      in if dfs = [] then Inl FileNotFoundError
         else let dfs = normalize_sources dfs
              in (case spine_for dfs of
                    Inl e \<Rightarrow> Inl e
                  | Inr spine \<Rightarrow> join_sources spine dfs))"

text \<open>The join keys of the rows of a source, as the join sees them.\<close>

definition join_keys :: "string \<Rightarrow> frame \<Rightarrow> cell list list" where
  "join_keys key df = map (key_of (prepare key df) (join_on key df)) (rows (prepare key df))"


subsection \<open>Sample data for the examples\<close>

text \<open>
  The examples below need some reading of dates. \<open>iso_reader\<close> reads the texts of the form
  \<^verbatim>\<open>YYYY-MM-DD\<close> and nothing else, each cell on its own.
\<close>

fun read_nat :: "nat \<Rightarrow> string \<Rightarrow> nat option" where
  "read_nat acc [] = Some acc"
| "read_nat acc (c # cs) =
     (if c \<in> set ''0123456789'' then read_nat (10 * acc + index_of c ''0123456789'') cs
      else None)"

definition read_iso_date :: "cell \<Rightarrow> date option" where
  "read_iso_date v =
     (case v of
        Str s \<Rightarrow>
          if length s = 10 \<and> s ! 4 = CHR ''-'' \<and> s ! 7 = CHR ''-''
          then (case (read_nat 0 (take 4 s), read_nat 0 (take 2 (drop 5 s)), read_nat 0 (drop 8 s)) of
                  (Some y, Some m, Some d) \<Rightarrow>
                    if 1 \<le> m \<and> m \<le> 12 \<and> 1 \<le> d \<and> d \<le> 31
                    then Some \<lparr>year = int y, month = m, day = d\<rparr> else None
                | _ \<Rightarrow> None)
          else None
      | _ \<Rightarrow> None)"

definition iso_reader :: parser where
  "iso_reader = \<lparr>strict = read_iso_date, flexible = (\<lambda>column. read_iso_date)\<rparr>"

text \<open>A balance-sheet table with three companies; the identifier column holds an integer,
  a float and texts, as a spreadsheet column does.\<close>

definition sample_fs :: frame where
  "sample_fs =
     \<lparr>columns = [''Stkcd'', ''Accper'', ''A001''],
      rows = [[Num 600000, Str ''2020-12-31'', Num 10],
              [Flt ''600000.0'', Str ''2021-12-31'', Num 11],
              [Str ''000001'', Str ''2020-12-31'', Num 20],
              [Str '' 000002 '', Str ''2020-06-30'', Num 30],
              [Str ''000002'', Str ''n/a'', Num 31]]\<rparr>"

text \<open>Filtered sources for the merging stage: company data, a balance sheet whose date
  column arrives as \<^verbatim>\<open>Accper.1\<close>, and product rows with several rows per company and
  date.\<close>

definition sample_co :: frame where
  "sample_co = \<lparr>columns = [''Stkcd'', ''Name''], rows = [[Flt ''600000.0'', Str ''Bank'']]\<rparr>"

definition sample_combas :: frame where
  "sample_combas =
     \<lparr>columns = [''Stkcd'', ''Accper.1'', ''A001''],
      rows = [[Num 600000, Str ''2020-12-31'', Num 10],
              [Num 600000, Str ''2021-12-31'', Num 11]]\<rparr>"

definition sample_pro :: frame where
  "sample_pro =
     \<lparr>columns = [''Symbol'', ''EndDate'', ''Product''],
      rows = [[Str ''600000'', Str ''2020-12-31'', Str ''Loans''],
              [Str ''600000'', Str ''2020-12-31'', Str ''Cards''],
              [Str ''000001'', Str ''2020-12-31'', Str ''Steel'']]\<rparr>"

definition sample_env :: "string \<Rightarrow> frame option" where
  "sample_env key =
     (if key = ''cg_co'' then Some sample_co
      else if key = ''fs_combas'' then Some sample_combas
      else None)"

definition fanout_env :: "string \<Rightarrow> frame option" where
  "fanout_env key = (if key = ''mc_pro'' then Some sample_pro else sample_env key)"

definition sample_spine :: frame where
  "sample_spine =
     \<lparr>columns = [''Symbol'', ''Date''],
      rows = [[Str ''600000'', Str ''2020-12-31''], [Str ''600000'', Str ''2021-12-31'']]\<rparr>"

definition sample_merged :: frame where
  "sample_merged =
     \<lparr>columns = [''Symbol'', ''Date'', ''cg_co_Stkcd'', ''cg_co_Name'',
                 ''fs_combas_Stkcd'', ''fs_combas_A001''],
      rows = [[Str ''600000'', Str ''2020-12-31'', Flt ''600000.0'', Str ''Bank'',
               Num 600000, Num 10],
              [Str ''600000'', Str ''2021-12-31'', Flt ''600000.0'', Str ''Bank'',
               Num 600000, Num 11]]\<rparr>"

definition fanout_spine :: frame where
  "fanout_spine =
     \<lparr>columns = [''Symbol'', ''Date''],
      rows = [[Str ''600000'', Str ''2020-12-31''], [Str ''600000'', Str ''2021-12-31''],
              [Str ''000001'', Str ''2020-12-31'']]\<rparr>"

definition fanout_merged :: frame where
  "fanout_merged =
     \<lparr>columns = [''Symbol'', ''Date'', ''cg_co_Stkcd'', ''cg_co_Name'',
                 ''fs_combas_Stkcd'', ''fs_combas_A001'', ''mc_pro_Product''],
      rows = [[Str ''600000'', Str ''2020-12-31'', Flt ''600000.0'', Str ''Bank'',
               Num 600000, Num 10, Str ''Loans''],
              [Str ''600000'', Str ''2020-12-31'', Flt ''600000.0'', Str ''Bank'',
               Num 600000, Num 10, Str ''Cards''],
              [Str ''600000'', Str ''2021-12-31'', Flt ''600000.0'', Str ''Bank'',
               Num 600000, Num 11, Null],
              [Str ''000001'', Str ''2020-12-31'', Null, Null, Null, Null, Str ''Steel'']]\<rparr>"

text \<open>A data directory for \<^verbatim>\<open>process\<close> in which the company codes of the diversification
  files do not occur in the other files.\<close>

definition raw_co :: frame where
  "raw_co = \<lparr>columns = [''Stkcd'', ''Name''], rows = [[Num 600000, Str ''Bank'']]\<rparr>"

definition raw_fs :: frame where
  "raw_fs =
     \<lparr>columns = [''Stkcd'', ''Accper'', ''Typrep'', ''A001''],
      rows = [[Num 600000, Str ''2020-12-31'', Str ''B'', Num 10],
              [Num 600000, Str ''2020-12-31'', Str ''A'', Num 99]]\<rparr>"

definition raw_mc :: frame where
  "raw_mc =
     \<lparr>columns = [''Symbol'', ''EndDate'', ''StateTypeCode'', ''Degree''],
      rows = [[Str ''000001'', Str ''2020-12-31'', Num 2, Num 1]]\<rparr>"

definition sample_world :: world where
  "sample_world =
     \<lparr>listing = [''CG_Co.xlsx'', ''FS_Combas.xlsx'', ''FS_Comins.xlsx'',
                 ''MC_DiverOperationsDegree.csv'', ''MC_DiverOperationsPro.csv''],
      read_csv = (\<lambda>path. if path \<in> {''MC_DiverOperationsDegree.csv'', ''MC_DiverOperationsPro.csv''}
                          then Inr raw_mc else Inl (Raised FileNotFoundError)),
      read_csv_lenient = (\<lambda>path. Inl FileNotFoundError),
      read_excel = (\<lambda>path. if path = ''CG_Co.xlsx'' then Inr raw_co
                            else if path \<in> {''FS_Combas.xlsx'', ''FS_Comins.xlsx''} then Inr raw_fs
                            else Inl FileNotFoundError)\<rparr>"


section \<open>Identifier normalisation\<close>

lemma normalize_company_id_map: "normalize_company_id s = map (\<lambda>v. Str (normal_id v)) s"
  by (simp add: normalize_company_id_def str_strip_def astype_str_def str_replace_dot0_def
      normal_id_def)

lemma mf_normalize_company_id_eq: "mf_normalize_company_id = normalize_company_id"
  by (rule ext) (simp add: normalize_company_id_def mf_normalize_company_id_def)









section \<open>Tables: basic facts\<close>



lemma index_of_absent: "x \<notin> set xs \<Longrightarrow> index_of x xs = length xs"
  by (induction xs) auto




lemma select_by_map: "select xs (map p xs) = filter p xs"
  unfolding select_def by (induction xs) auto





lemma set_unique: "set (unique xs) = set xs"
  by (simp add: unique_def)




lemma select_Nil [simp]: "select [] bs = []" "select xs [] = []"
  by (simp_all add: select_def)

lemma select_Cons [simp]:
  "select (x # xs) (b # bs) = (if b then x # select xs bs else select xs bs)"
  by (simp add: select_def)




text \<open>Entries selected by a conjunction of two flag lists satisfy what each list tests.\<close>

lemma select_conj_map:
  "list_all (\<lambda>x. p x \<and> q x)
     (select xs (map (\<lambda>(a, b). a \<and> b) (zip (map p xs) (map q xs))))"
  by (induction xs) auto


lemma select_select_flags:
  "length bs = length xs \<Longrightarrow> list_all p (select xs bs) \<Longrightarrow> list_all (\<lambda>b. b) (map p (select xs bs))"
  by (simp add: list_all_iff)





lemma columns_loc [simp]: "columns (loc df bs) = columns df"
  by (simp add: loc_def)

lemma rows_loc [simp]: "rows (loc df bs) = select (rows df) bs"
  by (simp add: loc_def)


lemma length_rows_setitem:
  "length s = length (rows df) \<Longrightarrow> length (rows (setitem df c s)) = length (rows df)"
  by (simp add: setitem_def)








lemma length_select_eq:
  "length xs = length ys \<Longrightarrow> length (select xs bs) = length (select ys bs)"
proof (induction xs arbitrary: ys bs)
  case Nil
  then show ?case by simp
next
  case (Cons x xs)
  then obtain y ys' where "ys = y # ys'" by (cases ys) auto
  with Cons show ?case by (cases bs) auto
qed





lemmas eval_defs = getitem_def setitem_def column_values_def
  normalize_company_id_map normal_id_def strip_def lstrip_def rstrip_def is_space_def
  str_int_def digits.simps digit_char_def sample_fs_def wf_frame_def unique_def dropna_def
  normalize_year_def to_datetime_iso_def to_datetime_def dt_year_def iso_reader_def
  read_iso_date_def dropna_subset_def year_sets_def loc_def select_def is_year_end_def

section \<open>Year-end rows\<close>

text \<open>
  C8. For a table that has the declared date column, \<^verbatim>\<open>filter_year_end\<close> returns the table
  with exactly those rows, in their order, whose date cell is read as a date with month 12
  and day 31 (read as \<^verbatim>\<open>pd.to_datetime\<close> reads the cell within that column). A cell
  that cannot be read is \<^verbatim>\<open>NaT\<close>; its row is left out and no error is raised. The only
  error is the \<^verbatim>\<open>KeyError\<close> of a table without the column.
\<close>

theorem filter_year_end_rows:
  assumes "date_col \<noteq> []"
  shows "filter_year_end P df (Some date_col) =
           (if date_col \<in> set (columns df)
            then Inr (df\<lparr>rows := filter
                   (\<lambda>r. case flexible P (column_values df date_col) (r ! index_of date_col (columns df)) of
                          None \<Rightarrow> False
                        | Some d \<Rightarrow> month d = 12 \<and> day d = 31)
                   (rows df)\<rparr>)
            else Inl (KeyError date_col))"
proof -
  let ?raw = "column_values df date_col"
  have "map is_year_end (to_datetime P ?raw)
      = map (\<lambda>r. is_year_end (flexible P ?raw (r ! index_of date_col (columns df)))) (rows df)"
    by (simp add: to_datetime_def column_values_def)
  then have "rows (loc df (map is_year_end (to_datetime P ?raw)))
      = filter (\<lambda>r. is_year_end (flexible P ?raw (r ! index_of date_col (columns df)))) (rows df)"
    by (simp add: loc_def select_by_map)
  then have "loc df (map is_year_end (to_datetime P ?raw))
      = df\<lparr>rows := filter (\<lambda>r. is_year_end (flexible P ?raw (r ! index_of date_col (columns df)))) (rows df)\<rparr>"
    by (simp add: loc_def)
  with assms show ?thesis
    by (simp add: filter_year_end_def getitem_def is_year_end_def)
qed

theorem filter_year_end_rows_witness:
  "''Accper'' \<noteq> []
   \<and> filter_year_end iso_reader sample_fs (Some ''Accper'') =
       Inr (sample_fs\<lparr>rows := [[Num 600000, Str ''2020-12-31'', Num 10],
                                [Flt ''600000.0'', Str ''2021-12-31'', Num 11],
                                [Str ''000001'', Str ''2020-12-31'', Num 20]]\<rparr>)"
  using filter_year_end_rows [of "''Accper''" iso_reader sample_fs]
  by (simp add: eval_defs)

section \<open>Coverage\<close>



text \<open>
  C7. Raising the threshold never adds companies: for \<open>m1 \<le> m2\<close> the companies covered at
  \<open>m2\<close> are among those covered at \<open>m1\<close>, and a call that raises at one threshold raises
  the same error at the other.
\<close>

theorem coverage_antimono:
  assumes "m1 \<le> m2"
  shows "case companies_with_full_years P df company_col year_col target_years m2 of
           Inl e \<Rightarrow> companies_with_full_years P df company_col year_col target_years m1 = Inl e
         | Inr s2 \<Rightarrow> (\<exists>s1. companies_with_full_years P df company_col year_col target_years m1 = Inr s1
                          \<and> s2 \<subseteq> s1)"
  using assms
  by (auto simp: companies_with_full_years_def Let_def split: sum.splits option.splits)

theorem coverage_antimono_witness:
  "(1::int) \<le> 2
   \<and> companies_with_full_years iso_reader sample_fs ''Stkcd'' (Some ''Accper'') {2020, 2021} 2
       = Inr {''600000''}
   \<and> (\<exists>s1. companies_with_full_years iso_reader sample_fs ''Stkcd'' (Some ''Accper'')
               {2020, 2021} 1 = Inr s1 \<and> {''600000''} \<subseteq> s1)"
proof -
  have two: "companies_with_full_years iso_reader sample_fs ''Stkcd'' (Some ''Accper'')
      {2020, 2021} 2 = Inr {''600000''}"
    by (simp add: companies_with_full_years_def eval_defs del: set_filter set_map)
  have "(1::int) \<le> 2" by simp
  from coverage_antimono [OF this, of iso_reader sample_fs "''Stkcd''" "Some ''Accper''"
      "{2020, 2021}"] two
  show ?thesis by simp
qed

section \<open>Filtering to the retained companies and target years\<close>







section \<open>The spine\<close>

lemma distinct_unique: "distinct (unique xs)"
  by (simp add: unique_def)

lemma length_unique: "length (unique xs) = card (set xs)"
  using distinct_card [OF distinct_unique, of xs] by (simp add: set_unique)

lemma project_present:
  "set cs \<subseteq> set (columns df) \<Longrightarrow>
   project df cs = Inr \<lparr>columns = cs,
                        rows = map (\<lambda>r. map (\<lambda>c. r ! index_of c (columns df)) cs) (rows df)\<rparr>"
proof -
  assume "set cs \<subseteq> set (columns df)"
  then have "filter (\<lambda>c. c \<notin> set (columns df)) cs = []"
    by (auto simp: filter_empty_conv)
  then show ?thesis by (simp add: project_def)
qed

lemma spine_parts_present:
  "\<forall>df \<in> set dfs. set key_cols \<subseteq> set (columns df) \<Longrightarrow>
   \<exists>parts. spine_parts dfs key_cols = Inr parts
     \<and> map rows parts
        = map (\<lambda>df. unique (map (\<lambda>r. map (\<lambda>c. r ! index_of c (columns df)) key_cols) (rows df))) dfs"
proof (induction dfs)
  case Nil
  then show ?case by simp
next
  case (Cons df dfs)
  then obtain parts where "spine_parts dfs key_cols = Inr parts"
      "map rows parts
        = map (\<lambda>df. unique (map (\<lambda>r. map (\<lambda>c. r ! index_of c (columns df)) key_cols) (rows df))) dfs"
    by auto
  moreover have "set key_cols \<subseteq> set (columns df)"
    using Cons.prems by simp
  ultimately show ?case
    by (simp add: project_present drop_duplicates_def)
qed


text \<open>
  C9. For a non-empty sequence of sources that all have the key columns, \<^verbatim>\<open>build_spine\<close>
  returns a table without repeated rows, and it has at least as many keys as the projection
  of every single source to the key columns has distinct keys (so at least as many as the
  largest of them).
\<close>

theorem spine_cardinality:
  assumes "dfs \<noteq> []" and "\<forall>df \<in> set dfs. set key_cols \<subseteq> set (columns df)"
  shows "\<exists>spine. build_spine dfs key_cols = Inr spine
           \<and> length (rows spine) = card (set (rows spine))
           \<and> (\<forall>df \<in> set dfs. \<exists>sub. project df key_cols = Inr sub
                 \<and> card (set (rows (drop_duplicates sub))) \<le> card (set (rows spine))
                 \<and> length (rows (drop_duplicates sub)) \<le> length (rows spine))"
proof -
  let ?proj = "\<lambda>df. map (\<lambda>r. map (\<lambda>c. r ! index_of c (columns df)) key_cols) (rows df)"
  obtain parts where parts: "spine_parts dfs key_cols = Inr parts"
      "map rows parts = map (\<lambda>df. unique (?proj df)) dfs"
    using spine_parts_present [OF assms(2)] by blast
  from parts(2) assms(1) have ne: "parts \<noteq> []"
    by auto
  let ?spine = "drop_duplicates \<lparr>columns = key_cols, rows = concat (map rows parts)\<rparr>"
  have sp: "build_spine dfs key_cols = Inr ?spine"
    using parts(1) ne by (simp add: build_spine_def)
  have rows_sp: "set (rows ?spine) = (\<Union>df \<in> set dfs. set (?proj df))"
    by (simp add: drop_duplicates_def set_unique parts(2))
  have len_sp: "length (rows ?spine) = card (set (rows ?spine))"
    by (simp add: drop_duplicates_def length_unique set_unique)
  have each: "\<exists>sub. project df key_cols = Inr sub
       \<and> card (set (rows (drop_duplicates sub))) \<le> card (set (rows ?spine))
       \<and> length (rows (drop_duplicates sub)) \<le> length (rows ?spine)" if df: "df \<in> set dfs" for df
  proof -
    let ?sub = "\<lparr>columns = key_cols, rows = ?proj df\<rparr>"
    have p: "project df key_cols = Inr ?sub"
      using assms(2) df by (simp add: project_present)
    have "set (?proj df) \<subseteq> set (rows ?spine)"
      unfolding rows_sp using df by blast
    then have c: "card (set (?proj df)) \<le> card (set (rows ?spine))"
      by (intro card_mono) auto
    have "card (set (rows (drop_duplicates ?sub))) = card (set (?proj df))"
      by (simp add: drop_duplicates_def set_unique)
    moreover have "length (rows (drop_duplicates ?sub)) = card (set (?proj df))"
      by (simp add: drop_duplicates_def length_unique)
    ultimately show ?thesis
      using p c len_sp by auto
  qed
  from sp len_sp each show ?thesis by blast
qed

theorem spine_cardinality_witness:
  "[sample_pro, fanout_spine] \<noteq> []
   \<and> set [''Symbol''] \<subseteq> set (columns sample_pro)
   \<and> set [''Symbol''] \<subseteq> set (columns fanout_spine)
   \<and> (\<exists>spine. build_spine [sample_pro, fanout_spine] [''Symbol''] = Inr spine
          \<and> length (rows spine) = card (set (rows spine))
          \<and> (\<exists>sub. project sample_pro [''Symbol''] = Inr sub
                \<and> card (set (rows (drop_duplicates sub))) \<le> card (set (rows spine))
                \<and> length (rows (drop_duplicates sub)) \<le> length (rows spine)))"
proof -
  have a: "[sample_pro, fanout_spine] \<noteq> []"
    by simp
  have b: "\<forall>df \<in> set [sample_pro, fanout_spine]. set [''Symbol''] \<subseteq> set (columns df)"
    by (simp add: sample_pro_def fanout_spine_def)
  from spine_cardinality [OF a b] b show ?thesis
    by auto
qed

section \<open>The joins onto the spine\<close>

lemma filter_key_le_one:
  "distinct (map f xs) \<Longrightarrow> length (filter (\<lambda>x. f x = k) xs) \<le> 1"
proof (induction xs)
  case Nil
  then show ?case by simp
next
  case (Cons x xs)
  show ?case
  proof (cases "f x = k")
    case True
    have nx: "f x \<notin> f ` set xs"
      using Cons.prems by simp
    have "\<forall>y \<in> set xs. f y \<noteq> k"
    proof
      fix y assume "y \<in> set xs"
      then have "f y \<in> f ` set xs" by simp
      with nx True show "f y \<noteq> k" by auto
    qed
    then have "filter (\<lambda>x. f x = k) xs = []"
      by (simp add: filter_empty_conv)
    with True show ?thesis by simp
  next
    case False
    with Cons show ?thesis by simp
  qed
qed

lemma length_concat_ge:
  "(\<And>x. x \<in> set xs \<Longrightarrow> 1 \<le> length (f x)) \<Longrightarrow> length xs \<le> length (concat (map f xs))"
proof (induction xs)
  case Nil
  then show ?case by simp
next
  case (Cons a xs)
  have "1 \<le> length (f a)"
    using Cons.prems by simp
  moreover have "length xs \<le> length (concat (map f xs))"
    using Cons by simp
  ultimately show ?case by simp
qed

lemma length_concat_eq:
  "(\<And>x. x \<in> set xs \<Longrightarrow> length (f x) = 1) \<Longrightarrow> length (concat (map f xs)) = length xs"
  by (induction xs) auto

lemma merge_left_rows:
  assumes "merge_left left right on = Inr merged"
  shows "length (rows left) \<le> length (rows merged)"
    and "distinct (map (key_of right on) (rows right)) \<Longrightarrow> length (rows merged) = length (rows left)"
proof -
  let ?others = "other_positions right on"
  let ?f = "\<lambda>l. let partners = filter (\<lambda>r. key_of right on r = key_of left on l) (rows right)
              in if partners = [] then [l @ replicate (length ?others) Null]
                 else map (\<lambda>r. l @ map (\<lambda>i. r ! i) ?others) partners"
  from assms have rows: "rows merged = concat (map ?f (rows left))"
    by (auto simp: merge_left_def Let_def split: list.splits)
  have "1 \<le> length (?f l)" for l
    by (auto simp: Let_def Suc_le_eq)
  then show "length (rows left) \<le> length (rows merged)"
    unfolding rows by (intro length_concat_ge)
  assume d: "distinct (map (key_of right on) (rows right))"
  have "length (?f l) = 1" for l
  proof -
    have "length (filter (\<lambda>r. key_of right on r = key_of left on l) (rows right)) \<le> 1"
      using d by (rule filter_key_le_one)
    then show ?thesis
      by (cases "filter (\<lambda>r. key_of right on r = key_of left on l) (rows right)")
        (auto simp: Let_def)
  qed
  then show "length (rows merged) = length (rows left)"
    unfolding rows by (intro length_concat_eq)
qed


text \<open>
  C1. The table that results from joining the sources onto a spine never has fewer rows than
  the spine: a left join keeps every row of the running table. It has exactly as many rows
  as the spine when no source has two rows with the same join key (company and date, or the
  company alone for a source without date column).
\<close>

theorem join_row_count:
  assumes "join_sources spine dfs = Inr merged"
  shows "length (rows spine) \<le> length (rows merged)
         \<and> (list_all (\<lambda>(key, df). distinct (join_keys key df)) dfs
              \<longrightarrow> length (rows merged) = length (rows spine))"
  using assms
proof (induction dfs arbitrary: spine)
  case Nil
  then show ?case by simp
next
  case (Cons a dfs)
  obtain key df where a: "a = (key, df)" by (cases a)
  from Cons.prems a obtain m where m: "merge_left spine (prepare key df) (join_on key df) = Inr m"
      and rest: "join_sources m dfs = Inr merged"
    by (auto split: sum.splits)
  from Cons.IH [OF rest] merge_left_rows [OF m] a show ?case
    by (auto simp: join_keys_def)
qed

lemmas merge_eval = merge_filtered_def load_files_def files_def normalize_sources_def add_symbol_def
  mf_normalize_company_id_eq spine_for_def dated_keys_def date_map_def spine_source_def actual_col_def
  fallbacks_def project_def rename_column_def build_spine_def drop_duplicates_def
  merge_left_def prepare_def join_on_def join_date_col_def prefix_columns_def key_of_def
  other_positions_def sample_env_def fanout_env_def sample_co_def sample_combas_def sample_pro_def
  join_keys_def

theorem join_row_count_witness:
  "join_sources sample_spine (normalize_sources (load_files sample_env)) = Inr sample_merged
   \<and> length (rows sample_spine) \<le> length (rows sample_merged)
   \<and> list_all (\<lambda>(key, df). distinct (join_keys key df)) (normalize_sources (load_files sample_env))
   \<and> length (rows sample_merged) = length (rows sample_spine)"
proof -
  have j: "join_sources sample_spine (normalize_sources (load_files sample_env)) = Inr sample_merged"
    by (simp add: sample_spine_def sample_merged_def merge_eval eval_defs upt_rec)
  have d: "list_all (\<lambda>(key, df). distinct (join_keys key df))
      (normalize_sources (load_files sample_env))"
    by (simp add: merge_eval eval_defs upt_rec)
  from join_row_count [OF j] j d show ?thesis
    by simp
qed

text \<open>
  With a source that has two product rows for one company and date, the spine has three rows
  and the merged table four.
\<close>

theorem join_row_count_counterexample:
  "spine_for (normalize_sources (load_files fanout_env)) = Inr fanout_spine
   \<and> merge_filtered fanout_env = Inr fanout_merged
   \<and> length (rows fanout_spine) = 3
   \<and> length (rows fanout_merged) = 4"
  by (simp add: fanout_spine_def fanout_merged_def merge_eval eval_defs upt_rec)

section \<open>The merge of accepted sources completes\<close>






























section \<open>A run without common companies\<close>

lemma load_dataset_facts:
  assumes "load_dataset P w target_years min_years inc cfg = Inr l"
  shows "l_cfg l = cfg
       \<and> l_row_count l = length (rows (l_df l))
       \<and> l_unique_companies l = card (set (dropna (column_values (l_df l) (l_company_col l))))
       \<and> companies_with_full_years P (l_df l) (l_company_col l) (l_year_col l) target_years min_years
           = Inr (l_coverage l)"
  using assms
  by (auto simp: load_dataset_def length_unique split: sum.splits)

lemma load_all_facts:
  assumes "load_all P w target_years min_years inc cfgs = Inr ls"
  shows "map l_cfg ls = cfgs
       \<and> list_all (\<lambda>l. l_row_count l = length (rows (l_df l))
            \<and> l_unique_companies l = card (set (dropna (column_values (l_df l) (l_company_col l))))
            \<and> companies_with_full_years P (l_df l) (l_company_col l) (l_year_col l) target_years
                 min_years = Inr (l_coverage l)) ls"
  using assms
proof (induction cfgs arbitrary: ls)
  case Nil
  then show ?case by simp
next
  case (Cons cfg cfgs)
  from Cons.prems obtain l ls' where l: "load_dataset P w target_years min_years inc cfg = Inr l"
      and ls': "load_all P w target_years min_years inc cfgs = Inr ls'" and ls: "ls = l # ls'"
    by (auto split: sum.splits)
  from load_dataset_facts [OF l] Cons.IH [OF ls'] ls show ?case
    by simp
qed


text \<open>
  C2. In a run in which all five datasets are loaded and the intersection of their coverage
  sets is empty, \<^verbatim>\<open>process\<close> raises \<^verbatim>\<open>RuntimeError\<close>; before that it has printed the
  summary line and, for every dataset in the order of \<^verbatim>\<open>DATASETS\<close>, its number of rows,
  its number of distinct companies and the number of its companies that meet the threshold
  (its coverage as \<^verbatim>\<open>companies_with_full_years\<close> computes it); and it has written no file.
\<close>

theorem empty_retention_fails:
  assumes "load_all P w target_years min_years include_consolidated DATASETS = Inr ls"
    and "intersection (map l_coverage ls) = {}"
  shows "result (process P w target_years min_years include_consolidated) = Inl RuntimeError
       \<and> saved (process P w target_years min_years include_consolidated) = []
       \<and> printed (process P w target_years min_years include_consolidated)
           = Summary min_years target_years 0
             # map (\<lambda>l. DatasetLine (cfg_key (l_cfg l)) (l_row_count l) (l_unique_companies l)
                          (card (l_coverage l))
                          (case l_years_present l of
                             None \<Rightarrow> None
                           | Some (yr_min, yr_max, yr_samples) \<Rightarrow> Some (yr_min, yr_max))) ls
       \<and> map l_cfg ls = DATASETS
       \<and> list_all (\<lambda>l. l_row_count l = length (rows (l_df l))
            \<and> l_unique_companies l = card (set (dropna (column_values (l_df l) (l_company_col l))))
            \<and> companies_with_full_years P (l_df l) (l_company_col l) (l_year_col l) target_years
                 min_years = Inr (l_coverage l)) ls"
proof -
  have "process P w target_years min_years include_consolidated
      = \<lparr>result = Inl RuntimeError,
         printed = Summary min_years target_years 0 # map dataset_line ls, saved = []\<rparr>"
    using assms by (simp add: process_def Let_def)
  moreover have "map dataset_line ls
      = map (\<lambda>l. DatasetLine (cfg_key (l_cfg l)) (l_row_count l) (l_unique_companies l)
                          (card (l_coverage l))
                          (case l_years_present l of
                             None \<Rightarrow> None
                           | Some (yr_min, yr_max, yr_samples) \<Rightarrow> Some (yr_min, yr_max))) ls"
    by (simp add: dataset_line_def)
  ultimately show ?thesis
    using load_all_facts [OF assms(1)] by simp
qed

lemmas process_eval = process_def load_dataset_def DATASETS_def find_input_file_def
  read_dataset_def path_suffix_def path_stem_def lower_def apply_row_filter_def startswith_def
  pick_first_existing_def years_present_def min_opt_def max_opt_def dataset_line_def
  intersection_def sample_world_def raw_co_def raw_fs_def raw_mc_def astype_str_def isin_str_def
  filter_year_end_def companies_with_full_years_def

theorem empty_retention_fails_witness:
  "(\<exists>ls. load_all iso_reader sample_world {2020} 1 False DATASETS = Inr ls
         \<and> intersection (map l_coverage ls) = {})
   \<and> result (process iso_reader sample_world {2020} 1 False) = Inl RuntimeError
   \<and> saved (process iso_reader sample_world {2020} 1 False) = []
   \<and> printed (process iso_reader sample_world {2020} 1 False)
       = [Summary 1 {2020} 0,
          DatasetLine ''cg_co'' 1 1 1 None,
          DatasetLine ''fs_combas'' 1 1 1 (Some (Some 2020, Some 2020)),
          DatasetLine ''fs_comins'' 1 1 1 (Some (Some 2020, Some 2020)),
          DatasetLine ''mc_diversified_degree'' 1 1 1 (Some (Some 2020, Some 2020)),
          DatasetLine ''mc_diversified_product'' 1 1 1 (Some (Some 2020, Some 2020))]"
proof -
  have l: "\<exists>ls. load_all iso_reader sample_world {2020} 1 False DATASETS = Inr ls
         \<and> intersection (map l_coverage ls) = {}"
    by (simp add: process_eval eval_defs Let_def del: set_filter set_map)
  then obtain ls where ls: "load_all iso_reader sample_world {2020} 1 False DATASETS = Inr ls"
      "intersection (map l_coverage ls) = {}"
    by blast
  have p: "printed (process iso_reader sample_world {2020} 1 False)
       = [Summary 1 {2020} 0,
          DatasetLine ''cg_co'' 1 1 1 None,
          DatasetLine ''fs_combas'' 1 1 1 (Some (Some 2020, Some 2020)),
          DatasetLine ''fs_comins'' 1 1 1 (Some (Some 2020, Some 2020)),
          DatasetLine ''mc_diversified_degree'' 1 1 1 (Some (Some 2020, Some 2020)),
          DatasetLine ''mc_diversified_product'' 1 1 1 (Some (Some 2020, Some 2020))]"
    by (simp add: process_eval eval_defs Let_def del: set_filter set_map)
  from empty_retention_fails [OF ls] l p show ?thesis
    by simp
qed

section \<open>The caller's table\<close>

lemma cw_pure:
  "fst (companies_with_full_years_st P h df c y T m) = companies_with_full_years P (h ! df) c y T m"
  by (simp add: companies_with_full_years_st_def companies_with_full_years_def copy_def alloc_def
      assign_column_def Let_def split: sum.splits option.splits)

lemma cw_frame:
  "take (length h) (snd (companies_with_full_years_st P h df c y T m)) = h"
  by (simp add: companies_with_full_years_st_def copy_def alloc_def
      assign_column_def Let_def split: sum.splits option.splits)

lemma ff_frame:
  "take (length h) (snd (filter_for_companies_and_years_st P h df c y K T)) = h"
  by (simp add: filter_for_companies_and_years_st_def copy_def alloc_def
      assign_column_def Let_def split: sum.splits option.splits)

lemma ff_pure:
  "(case fst (filter_for_companies_and_years_st P h df c y K T) of
      Inl e \<Rightarrow> filter_for_companies_and_years P (h ! df) c y K T = Inl e
    | Inr res \<Rightarrow> length h \<le> res
        \<and> res < length (snd (filter_for_companies_and_years_st P h df c y K T))
        \<and> filter_for_companies_and_years P (h ! df) c y K T
            = Inr (snd (filter_for_companies_and_years_st P h df c y K T) ! res))"
  by (simp add: filter_for_companies_and_years_st_def filter_for_companies_and_years_def
      copy_def alloc_def assign_column_def Let_def nth_append split: sum.splits option.splits)

text \<open>
  C10. \<^verbatim>\<open>companies_with_full_years\<close> and \<^verbatim>\<open>filter_for_companies_and_years\<close> work on a
  copy: after the call the table at the caller's address, and every other table that
  existed before the call, is what it was before. The results are those of the functions
  on values defined above, and the filter returns its table at a new address.
\<close>

theorem caller_table_unchanged:
  assumes "df < length h"
  shows "snd (companies_with_full_years_st P h df company_col year_col target_years min_years) ! df
           = h ! df
       \<and> take (length h)
            (snd (companies_with_full_years_st P h df company_col year_col target_years min_years))
           = h
       \<and> fst (companies_with_full_years_st P h df company_col year_col target_years min_years)
           = companies_with_full_years P (h ! df) company_col year_col target_years min_years
       \<and> snd (filter_for_companies_and_years_st P h df company_col year_col keep_companies
                 target_years) ! df = h ! df
       \<and> take (length h)
            (snd (filter_for_companies_and_years_st P h df company_col year_col keep_companies
                    target_years)) = h
       \<and> (case fst (filter_for_companies_and_years_st P h df company_col year_col keep_companies
                       target_years) of
             Inl e \<Rightarrow> filter_for_companies_and_years P (h ! df) company_col year_col
                        keep_companies target_years = Inl e
           | Inr res \<Rightarrow> length h \<le> res
               \<and> res < length (snd (filter_for_companies_and_years_st P h df company_col year_col
                                       keep_companies target_years))
               \<and> filter_for_companies_and_years P (h ! df) company_col year_col keep_companies
                    target_years
                   = Inr (snd (filter_for_companies_and_years_st P h df company_col year_col
                                 keep_companies target_years) ! res))"
proof -
  let ?h1 = "snd (companies_with_full_years_st P h df company_col year_col target_years min_years)"
  let ?h2 = "snd (filter_for_companies_and_years_st P h df company_col year_col keep_companies
                    target_years)"
  have t1: "take (length h) ?h1 = h" by (rule cw_frame)
  have t2: "take (length h) ?h2 = h" by (rule ff_frame)
  have "?h1 ! df = take (length h) ?h1 ! df"
    using assms by simp
  with t1 have n1: "?h1 ! df = h ! df" by simp
  have "?h2 ! df = take (length h) ?h2 ! df"
    using assms by simp
  with t2 have n2: "?h2 ! df = h ! df" by simp
  from n1 t1 n2 t2 cw_pure [of P h df company_col year_col target_years min_years]
    ff_pure [of P h df company_col year_col keep_companies target_years]
  show ?thesis by simp
qed

theorem caller_table_unchanged_witness:
  "0 < length [sample_fs]
   \<and> snd (companies_with_full_years_st iso_reader [sample_fs] 0 ''Stkcd'' (Some ''Accper'')
            {2020, 2021} 2) ! 0 = sample_fs
   \<and> fst (companies_with_full_years_st iso_reader [sample_fs] 0 ''Stkcd'' (Some ''Accper'')
            {2020, 2021} 2) = Inr {''600000''}
   \<and> snd (filter_for_companies_and_years_st iso_reader [sample_fs] 0 ''Stkcd'' (Some ''Accper'')
            {''600000''} {2020, 2021}) ! 0 = sample_fs
   \<and> take 1 (snd (filter_for_companies_and_years_st iso_reader [sample_fs] 0 ''Stkcd''
                    (Some ''Accper'') {''600000''} {2020, 2021})) = [sample_fs]"
proof -
  have l: "0 < length [sample_fs]" by simp
  have c: "companies_with_full_years iso_reader sample_fs ''Stkcd'' (Some ''Accper'')
      {2020, 2021} 2 = Inr {''600000''}"
    by (simp add: companies_with_full_years_def eval_defs del: set_filter set_map)
  from caller_table_unchanged [OF l, of iso_reader "''Stkcd''" "Some ''Accper''" "{2020, 2021}" 2
      "{''600000''}"] c
  show ?thesis by simp
qed

end
